theory Spec2Isabelle
  imports Main "HOL-Library.Word" "HOL-Library.Multiset"
begin

section \<open>The EthereumJS adapter of Hardhat Network\<close>

text \<open>
  A shallow embedding of \<^verbatim>\<open>EthereumJSAdapter\<close>
  (\<^verbatim>\<open>hardhat-network/provider/vm/ethereumjs.ts\<close>). The class is a record of its
  fields; every method takes the adapter and returns its result together with the
  adapter after the call. A rejected promise is the \<open>Inl\<close> of a sum.

  The execution engine, the state manager, the ruleset library, the transaction hash
  and the debug tracer are libraries outside the class. They are the fields of the
  record \<open>externals\<close>, so that every theorem holds for any engine and any state
  backend, and the properties of the backend that a theorem relies on are written as
  its hypotheses.
\<close>

subsection \<open>Data\<close>

type_synonym Buffer = "8 word list"

type_synonym Address = nat

text \<open>A callback is a JavaScript function, compared by reference: its identity.\<close>

type_synonym Callback = nat

text \<open>
  What is thrown: a plain JavaScript \<^verbatim>\<open>Error\<close>, or one of the provider's error
  classes, each with its message.

  Modelled from the spec: \<^verbatim>\<open>assertHardhatInvariant\<close> (\<^verbatim>\<open>core/errors\<close>, not among
  the sources) signals an unrecoverable invariant violation when its condition is
  false; that is \<open>HardhatError\<close> with the message of the assertion.
\<close>

datatype error =
    Error string
  | HardhatError string
  | InvalidInputError string
  | InternalError string
  | TransactionExecutionError string

text \<open>
  \<^verbatim>\<open>Common\<close>, the ruleset descriptor. The chain id handed to \<^verbatim>\<open>Common.custom\<close>
  by \<^verbatim>\<open>dryRun\<close> has the type \<^verbatim>\<open>number | undefined\<close>, hence the option.
\<close>

record Common =
  chainId :: "int option"
  networkId :: int
  hardfork :: string

record Account =
  nonce :: int
  balance :: int

record TypedTransaction =
  tx_type :: int
  sender :: Address
  gasPrice :: "int option"
  payload :: Buffer

text \<open>
  What the engine is given to run: a transaction as the caller built it, or one of the
  three fake-sender wrappers that \<^verbatim>\<open>traceTransaction\<close> constructs.
\<close>

datatype EngineTx =
    Plain TypedTransaction
  | FakeSenderTransaction Address TypedTransaction Common
  | FakeSenderAccessListEIP2930Transaction Address TypedTransaction Common
  | FakeSenderEIP1559Transaction Address TypedTransaction Common

record BlockHeader =
  number :: int
  baseFeePerGas :: "int option"

record Block =
  header :: BlockHeader
  transactions :: "TypedTransaction list"
  block_common :: Common

record RunTxOpts =
  skipNonce :: bool
  skipBalance :: bool
  skipBlockGasLimitValidation :: bool

record RunTxResult =
  totalGasSpent :: int
  returnValue :: Buffer
  exceptionError :: "string option"

record RpcDebugTracingConfig =
  disableStorage :: bool
  disableMemory :: bool
  disableStack :: bool

record RpcDebugTraceOutput =
  failed :: bool
  gas :: int
  traceReturnValue :: Buffer
  structLogs :: "string list"

record TracingCallbacks =
  beforeMessage :: Callback
  step :: Callback
  afterMessage :: Callback

text \<open>An event emitter: for each event name, the listeners in the order they were added.\<close>

type_synonym EventEmitter = "string \<Rightarrow> Callback list"

subsection \<open>The libraries the adapter calls\<close>

text \<open>
  \<open>'w\<close> is the state of the state manager (the trie and its database). The state
  manager and the engine share it: \<^verbatim>\<open>create\<close> hands the same object to both.
  \<open>runTx\<close> is \<^verbatim>\<open>vm.runTx\<close> of a VM whose \<^verbatim>\<open>_common\<close> is the first argument; it
  may change the state and either returns a result (a reverted execution is a result
  with \<open>exceptionError\<close> set) or throws. \<open>VMDebugTracer_trace\<close> is
  \<^verbatim>\<open>new VMDebugTracer(vm).trace(action, config)\<close>, which is given the action to run.
  \<open>hardforkSupported\<close> is the library's table of hardfork names, \<open>hardforkGteHardfork\<close>
  the order of a ruleset's chain on them, \<open>txHash\<close> the hash of a wrapped transaction.
  \<open>blockDataError\<close> is the validation of \<^verbatim>\<open>Block.fromBlockData\<close>: the error it
  throws on these block data under this ruleset (a base fee under a ruleset without
  the fee market, a transaction it cannot rebuild), or none.

  The getters and setters of the state manager, \<^verbatim>\<open>VM.create\<close>,
  \<^verbatim>\<open>getSenderAddress\<close> and \<^verbatim>\<open>hash\<close> are taken to return: the adapter has no
  handler for their failure, and no property below is about it.
\<close>

record 'w externals =
  getStateRoot :: "'w \<Rightarrow> Buffer"
  setStateRoot :: "Buffer \<Rightarrow> 'w \<Rightarrow> 'w"
  getAccount :: "'w \<Rightarrow> Address \<Rightarrow> Account"
  putAccount :: "Address \<Rightarrow> Account \<Rightarrow> 'w \<Rightarrow> 'w"
  runTx :: "Common \<Rightarrow> RunTxOpts \<Rightarrow> Block \<Rightarrow> EngineTx \<Rightarrow> 'w \<Rightarrow> (error + RunTxResult) \<times> 'w"
  hardforkSupported :: "string \<Rightarrow> bool"
  hardforkGteHardfork :: "Common \<Rightarrow> string \<Rightarrow> string \<Rightarrow> bool"
  txHash :: "EngineTx \<Rightarrow> Buffer"
  blockDataError :: "Block \<Rightarrow> Common \<Rightarrow> error option"
  VMDebugTracer_trace ::
    "Common \<Rightarrow> ('w \<Rightarrow> (error + unit) \<times> 'w) \<Rightarrow> RpcDebugTracingConfig \<Rightarrow> 'w
      \<Rightarrow> (error + RpcDebugTraceOutput) \<times> 'w"

text \<open>
  The fields of the class. \<open>vm_common\<close> is \<^verbatim>\<open>this._vm._common\<close>, \<open>evm_events\<close> is
  \<^verbatim>\<open>this._vm.evm.events\<close> (it may be undefined), \<open>stateManager\<close> the state behind
  \<^verbatim>\<open>this._stateManager\<close>. \<open>selectHardfork\<close> is supplied by the caller and may throw.
\<close>

record 'w EthereumJSAdapter =
  vm_common :: Common
  evm_events :: "EventEmitter option"
  stateManager :: 'w
  common :: Common
  configNetworkId :: int
  configChainId :: int
  selectHardfork :: "int \<Rightarrow> error + string"
  forkNetworkId :: "int option"
  forkBlockNumber :: "int option"
  tracingCallbacks :: "TracingCallbacks option"
  blockStartStateRoot :: "Buffer option"

subsection \<open>The block lifecycle\<close>

definition startBlock ::
  "'w externals \<Rightarrow> 'w EthereumJSAdapter \<Rightarrow> (error + unit) \<times> 'w EthereumJSAdapter" where
  "startBlock ext a =
     (if blockStartStateRoot a \<noteq> None then (Inl (Error ''a block is already started''), a)
      else (Inr (), a\<lparr>blockStartStateRoot := Some (getStateRoot ext (stateManager a))\<rparr>))"

definition runTxInBlock ::
  "'w externals \<Rightarrow> 'w EthereumJSAdapter \<Rightarrow> TypedTransaction \<Rightarrow> Block
    \<Rightarrow> (error + RunTxResult) \<times> 'w EthereumJSAdapter" where
  "runTxInBlock ext a tx block =
     (case runTx ext (vm_common a)
             \<lparr>skipNonce = False, skipBalance = False, skipBlockGasLimitValidation = False\<rparr>
             block (Plain tx) (stateManager a) of
        (r, w) \<Rightarrow> (r, a\<lparr>stateManager := w\<rparr>))"

text \<open>The body of the loop of \<^verbatim>\<open>addBlockRewards\<close>, for one pair.\<close>

definition addReward :: "'w externals \<Rightarrow> Address \<times> int \<Rightarrow> 'w \<Rightarrow> 'w" where
  "addReward ext ar w =
     (case ar of (address, reward) \<Rightarrow>
        (let account = getAccount ext w address;
             account = account\<lparr>balance := balance account + reward\<rparr>
         in putAccount ext address account w))"

fun addRewards :: "'w externals \<Rightarrow> (Address \<times> int) list \<Rightarrow> 'w \<Rightarrow> 'w" where
  "addRewards ext [] w = w"
| "addRewards ext (ar # rewards) w = addRewards ext rewards (addReward ext ar w)"

definition addBlockRewards ::
  "'w externals \<Rightarrow> 'w EthereumJSAdapter \<Rightarrow> (Address \<times> int) list
    \<Rightarrow> (error + unit) \<times> 'w EthereumJSAdapter" where
  "addBlockRewards ext a rewards =
     (Inr (), a\<lparr>stateManager := addRewards ext rewards (stateManager a)\<rparr>)"

definition sealBlock ::
  "'w externals \<Rightarrow> 'w EthereumJSAdapter \<Rightarrow> (error + unit) \<times> 'w EthereumJSAdapter" where
  "sealBlock ext a =
     (case blockStartStateRoot a of
        None \<Rightarrow> (Inl (Error ''Cannot seal a block that wasn't started''), a)
      | Some root \<Rightarrow> (Inr (), a\<lparr>blockStartStateRoot := None\<rparr>))"

definition revertBlock ::
  "'w externals \<Rightarrow> 'w EthereumJSAdapter \<Rightarrow> (error + unit) \<times> 'w EthereumJSAdapter" where
  "revertBlock ext a =
     (case blockStartStateRoot a of
        None \<Rightarrow> (Inl (Error ''Cannot revert a block that wasn't started''), a)
      | Some root \<Rightarrow>
          (Inr (), a\<lparr>stateManager := setStateRoot ext root (stateManager a),
                     blockStartStateRoot := None\<rparr>))"

text \<open>
  A sequence of calls made while a block is being built. A call that throws leaves the
  adapter as that call left it, and the caller goes on.
\<close>

datatype BlockOp =
    RunTxInBlock TypedTransaction Block
  | AddBlockRewards "(Address \<times> int) list"

fun applyBlockOp :: "'w externals \<Rightarrow> BlockOp \<Rightarrow> 'w EthereumJSAdapter \<Rightarrow> 'w EthereumJSAdapter" where
  "applyBlockOp ext (RunTxInBlock tx block) a = snd (runTxInBlock ext a tx block)"
| "applyBlockOp ext (AddBlockRewards rewards) a = snd (addBlockRewards ext a rewards)"

fun applyBlockOps :: "'w externals \<Rightarrow> BlockOp list \<Rightarrow> 'w EthereumJSAdapter \<Rightarrow> 'w EthereumJSAdapter" where
  "applyBlockOps ext [] a = a"
| "applyBlockOps ext (op # ops) a = applyBlockOps ext ops (applyBlockOp ext op a)"

subsection \<open>Tracing hooks\<close>

text \<open>
  Node's event emitter: \<^verbatim>\<open>on\<close> appends the listener, \<^verbatim>\<open>removeListener\<close> removes
  one instance of it, the most recently added one, and does nothing when there is none.
\<close>

definition events_on :: "string \<Rightarrow> Callback \<Rightarrow> EventEmitter \<Rightarrow> EventEmitter" where
  "events_on ev l em = em(ev := em ev @ [l])"

definition events_removeListener :: "string \<Rightarrow> Callback \<Rightarrow> EventEmitter \<Rightarrow> EventEmitter" where
  "events_removeListener ev l em = em(ev := rev (remove1 l (rev (em ev))))"

definition enableTracing ::
  "'w EthereumJSAdapter \<Rightarrow> TracingCallbacks \<Rightarrow> (error + unit) \<times> 'w EthereumJSAdapter" where
  "enableTracing a callbacks =
     (case evm_events a of
        None \<Rightarrow> (Inl (HardhatError ''EVM should have an 'events' property''), a)
      | Some events \<Rightarrow>
          (let events = events_on ''beforeMessage'' (beforeMessage callbacks) events;
               events = events_on ''step'' (step callbacks) events;
               events = events_on ''afterMessage'' (afterMessage callbacks) events
           in (Inr (), a\<lparr>tracingCallbacks := Some callbacks, evm_events := Some events\<rparr>)))"

definition disableTracing ::
  "'w EthereumJSAdapter \<Rightarrow> (error + unit) \<times> 'w EthereumJSAdapter" where
  "disableTracing a =
     (case evm_events a of
        None \<Rightarrow> (Inl (HardhatError ''EVM should have an 'events' property''), a)
      | Some events \<Rightarrow>
          (case tracingCallbacks a of
             None \<Rightarrow> (Inr (), a)
           | Some callbacks \<Rightarrow>
               (let events = events_removeListener ''beforeMessage'' (beforeMessage callbacks) events;
                    events = events_removeListener ''step'' (step callbacks) events;
                    events = events_removeListener ''afterMessage'' (afterMessage callbacks) events
                in (Inr (), a\<lparr>evm_events := Some events, tracingCallbacks := None\<rparr>))))"

datatype TracingOp = EnableTracing TracingCallbacks | DisableTracing

fun applyTracingOp :: "TracingOp \<Rightarrow> 'w EthereumJSAdapter \<Rightarrow> 'w EthereumJSAdapter" where
  "applyTracingOp (EnableTracing callbacks) a = snd (enableTracing a callbacks)"
| "applyTracingOp DisableTracing a = snd (disableTracing a)"

fun applyTracingOps :: "TracingOp list \<Rightarrow> 'w EthereumJSAdapter \<Rightarrow> 'w EthereumJSAdapter" where
  "applyTracingOps [] a = a"
| "applyTracingOps (op # ops) a = applyTracingOps ops (applyTracingOp op a)"

text \<open>The listeners of an event; none when the engine has no event emitter.\<close>

definition listeners :: "'w EthereumJSAdapter \<Rightarrow> string \<Rightarrow> Callback list" where
  "listeners a ev = (case evm_events a of None \<Rightarrow> [] | Some events \<Rightarrow> events ev)"

subsection \<open>Rulesets\<close>

text \<open>
  \<^verbatim>\<open>Common.custom(chainParams, {hardfork})\<close> builds the descriptor from its arguments
  and throws when the library does not know the hardfork's name.
\<close>

definition Common_custom :: "'w externals \<Rightarrow> int option \<Rightarrow> int \<Rightarrow> string \<Rightarrow> error + Common" where
  "Common_custom ext cid nid hf =
     (if hardforkSupported ext hf
      then Inr \<lparr>chainId = cid, networkId = nid, hardfork = hf\<rparr>
      else Inl (Error (''Hardfork with name '' @ hf @ '' not supported'')))"

text \<open>\<^verbatim>\<open>common.gteHardfork(hf)\<close> compares the descriptor's own hardfork with \<open>hf\<close>.\<close>

definition gteHardfork :: "'w externals \<Rightarrow> Common \<Rightarrow> string \<Rightarrow> bool" where
  "gteHardfork ext c hf = hardforkGteHardfork ext c (hardfork c) hf"

datatype BlockNumberOrPending = BlockNumber int | Pending

definition isEip1559Active ::
  "'w externals \<Rightarrow> 'w EthereumJSAdapter \<Rightarrow> BlockNumberOrPending option \<Rightarrow> error + bool" where
  "isEip1559Active ext a blockNumberOrPending =
     (case blockNumberOrPending of
        Some (BlockNumber n) \<Rightarrow>
          (case selectHardfork a n of
             Inl e \<Rightarrow> Inl e
           | Inr hf \<Rightarrow> Inr (hardforkGteHardfork ext (common a) hf ''london''))
      | _ \<Rightarrow> Inr (gteHardfork ext (common a) ''london''))"

text \<open>
  The template literal of the one message that prints a network id: the decimal
  digits of the number, least significant first, then turned round and written out.
\<close>

fun decimalDigits :: "nat \<Rightarrow> nat list" where
  "decimalDigits n = (if 10 \<le> n then n mod 10 # decimalDigits (n div 10) else [n])"

definition templateNumber :: "int \<Rightarrow> string" where
  "templateNumber i =
     (if i < 0 then ''-'' else []) @ map (\<lambda>d. char_of (d + 48)) (rev (decimalDigits (nat \<bar>i\<bar>)))"

definition getCommonForTracing ::
  "'w externals \<Rightarrow> 'w EthereumJSAdapter \<Rightarrow> int \<Rightarrow> int \<Rightarrow> error + Common" where
  "getCommonForTracing ext a nid blockNumber =
     (case (case selectHardfork a blockNumber of
              Inl e \<Rightarrow> Inl e
            | Inr hf \<Rightarrow> Common_custom ext (Some nid) nid hf) of
        Inl e \<Rightarrow>
          Inl (InternalError (''Network id '' @ templateNumber nid @
                 '' does not correspond to a network that Hardhat can trace''))
      | Inr c \<Rightarrow> Inr c)"

declare decimalDigits.simps [simp del]

subsection \<open>Dry run\<close>

text \<open>
  \<^verbatim>\<open>Block.fromBlockData(blockContext, {freeze: false, common: this._common, ...})\<close>:
  the library rebuilds the header and the transactions under the given ruleset. It
  throws when they do not fit that ruleset; otherwise the result is a new block with
  the same header fields and transactions, bound to the ruleset. The block of the
  caller is not touched.
\<close>

definition Block_fromBlockData :: "'w externals \<Rightarrow> Block \<Rightarrow> Common \<Rightarrow> error + Block" where
  "Block_fromBlockData ext blockData c =
     (case blockDataError ext blockData c of
        Some e \<Rightarrow> Inl e
      | None \<Rightarrow> Inr (blockData\<lparr>block_common := c\<rparr>))"

text \<open>
  The body of the \<^verbatim>\<open>try\<close> of \<^verbatim>\<open>dryRun\<close>. Beside the outcome and the adapter it
  returns the local variable \<^verbatim>\<open>originalCommon\<close>, which the \<^verbatim>\<open>finally\<close> reads:
  it is still undefined when the first call of the ruleset selector throws, and when
  \<^verbatim>\<open>Block.fromBlockData\<close> throws.
\<close>

definition dryRun_try ::
  "'w externals \<Rightarrow> 'w EthereumJSAdapter \<Rightarrow> TypedTransaction \<Rightarrow> Block \<Rightarrow> bool
    \<Rightarrow> (error + RunTxResult) \<times> 'w EthereumJSAdapter \<times> Common option" where
  "dryRun_try ext a tx blockContext forceBaseFeeZero =
     (case isEip1559Active ext a (Some (BlockNumber (number (header blockContext)))) of
        Inl e \<Rightarrow> (Inl e, a, None)
      | Inr active \<Rightarrow>
          (case (if active \<and> (baseFeePerGas (header blockContext) = None \<or> forceBaseFeeZero)
                 then (case Block_fromBlockData ext blockContext (common a) of
                         Inl e \<Rightarrow> Inl e
                       | Inr blockContext \<Rightarrow>
                           Inr (blockContext\<lparr>header :=
                                  (header blockContext)\<lparr>baseFeePerGas := Some 0\<rparr>\<rparr>))
                 else Inr blockContext) of
             Inl e \<Rightarrow> (Inl e, a, None)
           | Inr blockContext \<Rightarrow>
               (let originalCommon = vm_common a
                in (case selectHardfork a (number (header blockContext)) of
                      Inl e \<Rightarrow> (Inl e, a, Some originalCommon)
                    | Inr hf \<Rightarrow>
                        (case Common_custom ext
                                (if (case forkBlockNumber a of
                                       None \<Rightarrow> True
                                     | Some n \<Rightarrow> number (header blockContext) \<ge> n)
                                 then Some (configChainId a)
                                 else forkNetworkId a)
                                (case forkNetworkId a of
                                   Some nid \<Rightarrow> nid
                                 | None \<Rightarrow> configNetworkId a)
                                hf of
                           Inl e \<Rightarrow> (Inl e, a, Some originalCommon)
                         | Inr c \<Rightarrow>
                             (let a = a\<lparr>vm_common := c\<rparr>
                              in (case runTx ext (vm_common a)
                                         \<lparr>skipNonce = True, skipBalance = True,
                                          skipBlockGasLimitValidation = True\<rparr>
                                         blockContext (Plain tx) (stateManager a) of
                                    (r, w) \<Rightarrow>
                                      (r, a\<lparr>stateManager := w\<rparr>, Some originalCommon))))))))"

definition dryRun ::
  "'w externals \<Rightarrow> 'w EthereumJSAdapter \<Rightarrow> TypedTransaction \<Rightarrow> Block \<Rightarrow> bool
    \<Rightarrow> (error + RunTxResult) \<times> 'w EthereumJSAdapter" where
  "dryRun ext a tx blockContext forceBaseFeeZero =
     (let initialStateRoot = getStateRoot ext (stateManager a)
      in (case dryRun_try ext a tx blockContext forceBaseFeeZero of
            (r, a', originalCommon) \<Rightarrow>
              (let a' = (case originalCommon of
                           Some c \<Rightarrow> a'\<lparr>vm_common := c\<rparr>
                         | None \<Rightarrow> a')
               in (r, a'\<lparr>stateManager := setStateRoot ext initialStateRoot (stateManager a')\<rparr>))))"

subsection \<open>Replaying a block to trace one transaction\<close>

text \<open>
  Lines 292 to 313: the ruleset of the VM that replays the block. On the remote side
  of the fork boundary it is a new VM made for the call, on the same state manager;
  otherwise the adapter's own VM.
\<close>

definition tracingVm ::
  "'w externals \<Rightarrow> 'w EthereumJSAdapter \<Rightarrow> int \<Rightarrow> error + Common" where
  "tracingVm ext a blockNumber =
     (case forkBlockNumber a of
        None \<Rightarrow> Inr (vm_common a)
      | Some n \<Rightarrow>
          (if blockNumber \<le> n
           then (case forkNetworkId a of
                   None \<Rightarrow>
                     Inl (HardhatError
                       ''this._forkNetworkId should exist if this._forkBlockNumber exists'')
                 | Some nid \<Rightarrow> getCommonForTracing ext a nid blockNumber)
           else Inr (vm_common a)))"

text \<open>The fake-sender wrapper for a transaction, by its type.\<close>

definition wrapTx :: "TypedTransaction \<Rightarrow> Common \<Rightarrow> error + EngineTx" where
  "wrapTx tx c =
     (let sender = sender tx
      in if tx_type tx = 0 then Inr (FakeSenderTransaction sender tx c)
         else if tx_type tx = 1 then Inr (FakeSenderAccessListEIP2930Transaction sender tx c)
         else if tx_type tx = 2
           then Inr (FakeSenderEIP1559Transaction sender (tx\<lparr>gasPrice := None\<rparr>) c)
         else Inl (InternalError ''Only legacy, EIP2930, and EIP1559 txs are supported''))"

text \<open>\<^verbatim>\<open>vm.runTx({ tx: txWithCommon, block })\<close>, as the action handed to the tracer.\<close>

definition runTxAction ::
  "'w externals \<Rightarrow> Common \<Rightarrow> Block \<Rightarrow> EngineTx \<Rightarrow> 'w \<Rightarrow> (error + unit) \<times> 'w" where
  "runTxAction ext c block txWithCommon w =
     (case runTx ext c
             \<lparr>skipNonce = False, skipBalance = False, skipBlockGasLimitValidation = False\<rparr>
             block txWithCommon w of
        (Inl e, w') \<Rightarrow> (Inl e, w')
      | (Inr r, w') \<Rightarrow> (Inr (), w'))"

text \<open>The \<^verbatim>\<open>for\<close> loop over \<^verbatim>\<open>block.transactions\<close> and the \<^verbatim>\<open>throw\<close> after it.\<close>

fun replay ::
  "'w externals \<Rightarrow> Common \<Rightarrow> Buffer \<Rightarrow> Block \<Rightarrow> RpcDebugTracingConfig \<Rightarrow> TypedTransaction list
    \<Rightarrow> 'w \<Rightarrow> (error + RpcDebugTraceOutput) \<times> 'w" where
  "replay ext c hash block config [] w =
     (Inl (TransactionExecutionError
        ''Unable to find a transaction in a block that contains that transaction, this should never happen''),
      w)"
| "replay ext c hash block config (tx # txs) w =
     (case wrapTx tx c of
        Inl e \<Rightarrow> (Inl e, w)
      | Inr txWithCommon \<Rightarrow>
          (if txHash ext txWithCommon = hash
           then VMDebugTracer_trace ext c (runTxAction ext c block txWithCommon) config w
           else (case runTxAction ext c block txWithCommon w of
                   (Inl e, w') \<Rightarrow> (Inl e, w')
                 | (Inr u, w') \<Rightarrow> replay ext c hash block config txs w')))"

definition traceTransaction ::
  "'w externals \<Rightarrow> 'w EthereumJSAdapter \<Rightarrow> Buffer \<Rightarrow> Block \<Rightarrow> RpcDebugTracingConfig
    \<Rightarrow> (error + RpcDebugTraceOutput) \<times> 'w EthereumJSAdapter" where
  "traceTransaction ext a hash block config =
     (let blockNumber = number (header block)
      in (case tracingVm ext a blockNumber of
            Inl e \<Rightarrow> (Inl e, a)
          | Inr vm \<Rightarrow>
              (let isPreSpuriousDragon = \<not> gteHardfork ext vm ''spuriousDragon''
               in if isPreSpuriousDragon
                  then (Inl (InvalidInputError
                          ''Tracing is not supported for transactions using hardforks older than Spurious Dragon. ''),
                        a)
                  else (case replay ext vm hash block config (transactions block) (stateManager a) of
                          (r, w) \<Rightarrow> (r, a\<lparr>stateManager := w\<rparr>)))))"

subsection \<open>Notions used to state the properties\<close>

text \<open>
  Executing wrapped transactions in order, each result discarded, up to the first one
  that throws: what the replay is said to do with the transactions before the target.
\<close>

fun executeInOrder ::
  "'w externals \<Rightarrow> Common \<Rightarrow> Block \<Rightarrow> EngineTx list \<Rightarrow> 'w \<Rightarrow> (error + unit) \<times> 'w" where
  "executeInOrder ext c block [] w = (Inr (), w)"
| "executeInOrder ext c block (etx # etxs) w =
     (case runTxAction ext c block etx w of
        (Inl e, w') \<Rightarrow> (Inl e, w')
      | (Inr u, w') \<Rightarrow> executeInOrder ext c block etxs w')"

text \<open>The three events of a tracing session, and the hook a session attaches to each.\<close>

definition tracingEvents :: "string list" where
  "tracingEvents = [''beforeMessage'', ''step'', ''afterMessage'']"

definition hook :: "TracingCallbacks \<Rightarrow> string \<Rightarrow> Callback" where
  "hook callbacks ev =
     (if ev = ''beforeMessage'' then beforeMessage callbacks
      else if ev = ''step'' then step callbacks
      else afterMessage callbacks)"

text \<open>
  Modelled from the spec: the provider's error classes (\<^verbatim>\<open>core/providers/errors\<close>, not
  among the sources). An invariant violation is to abort the request with an
  internal-error signal that tells it from a failure caused by the user;
  \<^verbatim>\<open>InternalError\<close> is that class, as against \<^verbatim>\<open>InvalidInputError\<close> for user input
  and \<^verbatim>\<open>TransactionExecutionError\<close> for a failed transaction execution. This is the
  test \<^verbatim>\<open>error instanceof InternalError\<close>.
\<close>

fun isInternalError :: "error \<Rightarrow> bool" where
  "isInternalError (InternalError message) = True"
| "isInternalError e = False"

text \<open>The sum of the rewards that a list holds for one address.\<close>

definition rewardsFor :: "Address \<Rightarrow> (Address \<times> int) list \<Rightarrow> int" where
  "rewardsFor x rewards = sum_list (map snd (filter (\<lambda>ar. fst ar = x) rewards))"

text \<open>
  A listener is leaked on an event when the emitter holds more instances of it than the
  stored session accounts for: \<^verbatim>\<open>disableTracing\<close> can remove at most the stored one.
\<close>

definition leaked :: "'w EthereumJSAdapter \<Rightarrow> Callback \<Rightarrow> string \<Rightarrow> bool" where
  "leaked a h ev \<longleftrightarrow>
     evm_events a \<noteq> None
     \<and> count (mset (listeners a ev)) h
         > (case tracingCallbacks a of
              None \<Rightarrow> 0
            | Some callbacks \<Rightarrow> if hook callbacks ev = h then 1 else 0)"

subsection \<open>A small backend and engine, for concrete runs\<close>

text \<open>
  A versioned store: every write makes a new version under a fresh root (the roots are
  strings of ones, each longer than the last), and setting the root selects a version.
  Its engine credits one unit to the sender and returns the chain id of the ruleset it
  runs under, as two bytes; it throws, after the credit, on an empty payload, and
  reports a revert on a payload that starts with a zero byte. Its tracer runs the
  action and reports the chain id too. The hash of a transaction is its payload. Its
  block library refuses a header with a base fee under a ruleset older than London,
  and a transaction of a type other than 0, 1 and 2.
\<close>

record ToyWorld =
  cur :: Buffer
  db :: "Buffer \<Rightarrow> Address \<Rightarrow> Account"
  fresh :: nat

fun tx_of :: "EngineTx \<Rightarrow> TypedTransaction" where
  "tx_of (Plain tx) = tx"
| "tx_of (FakeSenderTransaction s tx c) = tx"
| "tx_of (FakeSenderAccessListEIP2930Transaction s tx c) = tx"
| "tx_of (FakeSenderEIP1559Transaction s tx c) = tx"

definition toy_getAccount :: "ToyWorld \<Rightarrow> Address \<Rightarrow> Account" where
  "toy_getAccount w address = db w (cur w) address"

definition toy_putAccount :: "Address \<Rightarrow> Account \<Rightarrow> ToyWorld \<Rightarrow> ToyWorld" where
  "toy_putAccount address account w =
     (let root = replicate (fresh w) 1
      in \<lparr>cur = root,
          db = (db w)(root := (db w (cur w))(address := account)),
          fresh = Suc (fresh w)\<rparr>)"

definition toy_runTx ::
  "Common \<Rightarrow> RunTxOpts \<Rightarrow> Block \<Rightarrow> EngineTx \<Rightarrow> ToyWorld \<Rightarrow> (error + RunTxResult) \<times> ToyWorld" where
  "toy_runTx c opts block etx w =
     (let tx = tx_of etx;
          account = toy_getAccount w (sender tx);
          w' = toy_putAccount (sender tx) (account\<lparr>balance := balance account + 1\<rparr>) w;
          cid = (case chainId c of Some i \<Rightarrow> i | None \<Rightarrow> 0)
      in if payload tx = [] then (Inl (Error ''invalid transaction''), w')
         else (Inr \<lparr>totalGasSpent = 21000,
                    returnValue = [word_of_int (cid div 256), word_of_int (cid mod 256)],
                    exceptionError = (if hd (payload tx) = 0 then Some ''revert'' else None)\<rparr>,
               w'))"

definition toy_hardforks :: "string list" where
  "toy_hardforks =
     [''chainstart'', ''homestead'', ''dao'', ''tangerineWhistle'', ''spuriousDragon'',
      ''byzantium'', ''constantinople'', ''petersburg'', ''istanbul'', ''muirGlacier'',
      ''berlin'', ''london'', ''arrowGlacier'', ''grayGlacier'']"

fun toy_position :: "string \<Rightarrow> string list \<Rightarrow> int" where
  "toy_position hf [] = - 1"
| "toy_position hf (x # xs) =
     (if x = hf then 0 else (let p = toy_position hf xs in if p < 0 then p else p + 1))"

definition toy_trace ::
  "Common \<Rightarrow> (ToyWorld \<Rightarrow> (error + unit) \<times> ToyWorld) \<Rightarrow> RpcDebugTracingConfig \<Rightarrow> ToyWorld
    \<Rightarrow> (error + RpcDebugTraceOutput) \<times> ToyWorld" where
  "toy_trace c action config w =
     (case action w of
        (Inl e, w') \<Rightarrow> (Inl e, w')
      | (Inr u, w') \<Rightarrow>
          (Inr \<lparr>failed = False, gas = 21000,
                 traceReturnValue =
                   (case chainId c of
                      Some i \<Rightarrow> [word_of_int (i div 256), word_of_int (i mod 256)]
                    | None \<Rightarrow> []),
                 structLogs = [''STOP'']\<rparr>,
           w'))"

definition toy_blockDataError :: "Block \<Rightarrow> Common \<Rightarrow> error option" where
  "toy_blockDataError blockData c =
     (if baseFeePerGas (header blockData) \<noteq> None
         \<and> toy_position (hardfork c) toy_hardforks < toy_position ''london'' toy_hardforks
      then Some (Error ''A base fee for a block can only be set with EIP1559 being activated'')
      else if filter (\<lambda>tx. tx_type tx \<notin> {0, 1, 2}) (transactions blockData) \<noteq> []
      then Some (Error ''Tx instantiation with given type not supported'')
      else None)"

definition toy_externals :: "ToyWorld externals" where
  "toy_externals =
     \<lparr>getStateRoot = cur,
      setStateRoot = (\<lambda>root w. w\<lparr>cur := root\<rparr>),
      getAccount = toy_getAccount,
      putAccount = toy_putAccount,
      runTx = toy_runTx,
      hardforkSupported = (\<lambda>hf. hf \<in> set toy_hardforks),
      hardforkGteHardfork =
        (\<lambda>c hf1 hf2. toy_position hf1 toy_hardforks \<ge> toy_position hf2 toy_hardforks
                      \<and> toy_position hf2 toy_hardforks \<noteq> - 1),
      txHash = (\<lambda>etx. payload (tx_of etx)),
      blockDataError = toy_blockDataError,
      VMDebugTracer_trace = toy_trace\<rparr>"

definition toy_selectHardfork :: "int \<Rightarrow> error + string" where
  "toy_selectHardfork n =
     (if n < 0 then Inl (Error ''no hardfork for a negative block number'')
      else if n < 5 then Inr ''homestead''
      else if n < 100 then Inr ''berlin''
      else Inr ''london'')"

definition toy_common :: Common where
  "toy_common = \<lparr>chainId = Some 31337, networkId = 31337, hardfork = ''london''\<rparr>"

definition toy_world :: ToyWorld where
  "toy_world = \<lparr>cur = [], db = (\<lambda>root address. \<lparr>nonce = 0, balance = 0\<rparr>), fresh = 1\<rparr>"

text \<open>An idle adapter forked from chain 1 at block 10, with local chain id 31337.\<close>

definition toy_adapter :: "ToyWorld EthereumJSAdapter" where
  "toy_adapter =
     \<lparr>vm_common = toy_common,
      evm_events = Some (\<lambda>ev. []),
      stateManager = toy_world,
      common = toy_common,
      configNetworkId = 31337,
      configChainId = 31337,
      selectHardfork = toy_selectHardfork,
      forkNetworkId = Some 1,
      forkBlockNumber = Some 10,
      tracingCallbacks = None,
      blockStartStateRoot = None\<rparr>"

definition toy_tx :: "nat \<Rightarrow> Buffer \<Rightarrow> TypedTransaction" where
  "toy_tx s p = \<lparr>tx_type = 0, sender = s, gasPrice = Some 1, payload = p\<rparr>"

definition toy_block :: "int \<Rightarrow> int option \<Rightarrow> TypedTransaction list \<Rightarrow> Block" where
  "toy_block n fee txs =
     \<lparr>header = \<lparr>number = n, baseFeePerGas = fee\<rparr>, transactions = txs,
      block_common = toy_common\<rparr>"

definition toy_config :: RpcDebugTracingConfig where
  "toy_config = \<lparr>disableStorage = False, disableMemory = False, disableStack = False\<rparr>"

lemmas toy_defs =
  toy_externals_def toy_adapter_def toy_world_def toy_common_def toy_selectHardfork_def
  toy_tx_def toy_block_def toy_config_def toy_hardforks_def toy_runTx_def toy_trace_def
  toy_blockDataError_def
  toy_getAccount_def toy_putAccount_def

text \<open>The ruleset of the remote chain of \<open>toy_adapter\<close>, for a hardfork name.\<close>

definition toy_forkCommon :: "string \<Rightarrow> Common" where
  "toy_forkCommon hf = \<lparr>chainId = Some 1, networkId = 1, hardfork = hf\<rparr>"

lemmas toy_trace_defs = toy_defs toy_forkCommon_def tracingVm_def getCommonForTracing_def
  Common_custom_def gteHardfork_def wrapTx_def runTxAction_def Let_def

section \<open>Properties\<close>

subsection \<open>Block lifecycle\<close>

lemma applyBlockOp_checkpoint:
  "blockStartStateRoot (applyBlockOp ext op a) = blockStartStateRoot a"
  by (cases op) (simp_all add: runTxInBlock_def addBlockRewards_def split: prod.splits)

lemma applyBlockOps_checkpoint:
  "blockStartStateRoot (applyBlockOps ext ops a) = blockStartStateRoot a"
  by (induction ops arbitrary: a) (simp_all add: applyBlockOp_checkpoint)

text \<open>
  C5. While a block is in progress, whatever transactions are run and rewards added
  since it started, \<^verbatim>\<open>startBlock\<close> throws and the adapter, its checkpoint included,
  stays as it was. In the idle state \<^verbatim>\<open>sealBlock\<close> and \<^verbatim>\<open>revertBlock\<close> both throw
  and change nothing.
\<close>

theorem lifecycle_exclusivity:
  "(blockStartStateRoot a = Some root \<longrightarrow>
      startBlock ext (applyBlockOps ext ops a)
        = (Inl (Error ''a block is already started''), applyBlockOps ext ops a)
      \<and> blockStartStateRoot (applyBlockOps ext ops a) = Some root)
   \<and> (blockStartStateRoot a = None \<longrightarrow>
      sealBlock ext a = (Inl (Error ''Cannot seal a block that wasn't started''), a)
      \<and> revertBlock ext a = (Inl (Error ''Cannot revert a block that wasn't started''), a))"
  by (simp add: startBlock_def sealBlock_def revertBlock_def applyBlockOps_checkpoint)

theorem lifecycle_exclusivity_witness:
  "blockStartStateRoot (snd (startBlock toy_externals toy_adapter)) = Some []
   \<and> fst (startBlock toy_externals
            (applyBlockOps toy_externals [AddBlockRewards [(1, 5)]]
               (snd (startBlock toy_externals toy_adapter))))
       = Inl (Error ''a block is already started'')
   \<and> blockStartStateRoot
        (applyBlockOps toy_externals [AddBlockRewards [(1, 5)]]
           (snd (startBlock toy_externals toy_adapter))) = Some []
   \<and> blockStartStateRoot toy_adapter = None
   \<and> sealBlock toy_externals toy_adapter
       = (Inl (Error ''Cannot seal a block that wasn't started''), toy_adapter)
   \<and> revertBlock toy_externals toy_adapter
       = (Inl (Error ''Cannot revert a block that wasn't started''), toy_adapter)"
proof -
  have started: "blockStartStateRoot (snd (startBlock toy_externals toy_adapter)) = Some []"
    by (simp add: startBlock_def toy_defs)
  have idle: "blockStartStateRoot toy_adapter = None"
    by (simp add: toy_adapter_def)
  show ?thesis
    using started idle
      lifecycle_exclusivity [of "snd (startBlock toy_externals toy_adapter)" "[]"
        toy_externals "[AddBlockRewards [(1, 5)]]"]
      lifecycle_exclusivity [of toy_adapter "[]" toy_externals "[]"]
    by simp
qed

text \<open>
  The claim C3 says that \<^verbatim>\<open>addBlockRewards\<close> throws when no block is in progress
  and then changes no balance. The method has no such guard: on the idle adapter a
  reward of 5 for address 1 is applied.
\<close>

theorem addBlockRewards_idle_counterexample:
  "blockStartStateRoot toy_adapter = None
   \<and> fst (addBlockRewards toy_externals toy_adapter [(1, 5)]) = Inr ()
   \<and> balance (getAccount toy_externals (stateManager toy_adapter) 1) = 0
   \<and> balance (getAccount toy_externals
        (stateManager (snd (addBlockRewards toy_externals toy_adapter [(1, 5)]))) 1) = 5"
  by (simp add: addBlockRewards_def addReward_def toy_defs Let_def)

lemma addRewards_balance:
  assumes same: "\<forall>w x acc. getAccount ext (putAccount ext x acc w) x = acc"
    and other: "\<forall>w x y acc. y \<noteq> x \<longrightarrow> getAccount ext (putAccount ext x acc w) y = getAccount ext w y"
  shows "balance (getAccount ext (addRewards ext rewards w) x)
           = balance (getAccount ext w x) + rewardsFor x rewards"
proof (induction rewards arbitrary: w)
  case Nil
  then show ?case by (simp add: rewardsFor_def)
next
  case (Cons ar rewards)
  obtain address reward where ar: "ar = (address, reward)" by (cases ar)
  have step: "balance (getAccount ext (addReward ext ar w) x)
                = balance (getAccount ext w x) + (if address = x then reward else 0)"
    using same other by (simp add: addReward_def ar Let_def)
  show ?case
    using Cons.IH [of "addReward ext ar w"] step
    by (simp add: rewardsFor_def ar)
qed

text \<open>
  C3, as the code has it. \<^verbatim>\<open>addBlockRewards\<close> does not look at the lifecycle state:
  with or without a block in progress it returns normally, leaves the checkpoint as it
  was, and adds to the balance of every account the sum of the rewards listed for it.
  The two hypotheses are the read-after-write behaviour of the state backend.
\<close>

theorem addBlockRewards_unguarded:
  assumes same: "\<forall>w x acc. getAccount ext (putAccount ext x acc w) x = acc"
    and other: "\<forall>w x y acc. y \<noteq> x \<longrightarrow> getAccount ext (putAccount ext x acc w) y = getAccount ext w y"
  shows "fst (addBlockRewards ext a rewards) = Inr ()
    \<and> blockStartStateRoot (snd (addBlockRewards ext a rewards)) = blockStartStateRoot a
    \<and> balance (getAccount ext (stateManager (snd (addBlockRewards ext a rewards))) x)
        = balance (getAccount ext (stateManager a) x) + rewardsFor x rewards"
  using addRewards_balance [OF same other] by (simp add: addBlockRewards_def)

theorem addBlockRewards_unguarded_witness:
  "blockStartStateRoot toy_adapter = None
   \<and> fst (addBlockRewards toy_externals toy_adapter [(1, 5), (2, 3), (1, 4)]) = Inr ()
   \<and> blockStartStateRoot (snd (addBlockRewards toy_externals toy_adapter [(1, 5), (2, 3), (1, 4)])) = None
   \<and> balance (getAccount toy_externals
        (stateManager (snd (addBlockRewards toy_externals toy_adapter [(1, 5), (2, 3), (1, 4)]))) 1) = 9"
proof -
  have same: "\<forall>w x acc. getAccount toy_externals (putAccount toy_externals x acc w) x = acc"
    by (simp add: toy_defs Let_def)
  have other: "\<forall>w x y acc. y \<noteq> x \<longrightarrow>
      getAccount toy_externals (putAccount toy_externals x acc w) y = getAccount toy_externals w y"
    by (simp add: toy_defs Let_def)
  have start: "balance (getAccount toy_externals (stateManager toy_adapter) 1) = 0"
    by (simp add: toy_defs)
  have idle: "blockStartStateRoot toy_adapter = None"
    by (simp add: toy_adapter_def)
  show ?thesis
    using addBlockRewards_unguarded [OF same other, of toy_adapter "[(1, 5), (2, 3), (1, 4)]" 1]
      start idle
    by (simp add: rewardsFor_def)
qed

text \<open>
  C4. From the idle state, \<^verbatim>\<open>startBlock\<close> succeeds; after any sequence of
  \<^verbatim>\<open>runTxInBlock\<close> and \<^verbatim>\<open>addBlockRewards\<close> calls (throwing or not),
  \<^verbatim>\<open>revertBlock\<close> succeeds, the state root is again the one \<^verbatim>\<open>startBlock\<close>
  captured, and the checkpoint is gone. The hypothesis on the backend: after
  \<^verbatim>\<open>setStateRoot(r)\<close>, \<^verbatim>\<open>getStateRoot()\<close> is \<open>r\<close>.
\<close>

theorem revert_restores_checkpoint:
  assumes root: "\<forall>r w. getStateRoot ext (setStateRoot ext r w) = r"
    and idle: "blockStartStateRoot a = None"
  shows "fst (startBlock ext a) = Inr ()
    \<and> fst (revertBlock ext (applyBlockOps ext ops (snd (startBlock ext a)))) = Inr ()
    \<and> getStateRoot ext
        (stateManager (snd (revertBlock ext (applyBlockOps ext ops (snd (startBlock ext a))))))
        = getStateRoot ext (stateManager a)
    \<and> blockStartStateRoot
        (snd (revertBlock ext (applyBlockOps ext ops (snd (startBlock ext a))))) = None"
proof -
  let ?a1 = "snd (startBlock ext a)"
  let ?a2 = "applyBlockOps ext ops ?a1"
  have "blockStartStateRoot ?a1 = Some (getStateRoot ext (stateManager a))"
    using idle by (simp add: startBlock_def)
  then have cp: "blockStartStateRoot ?a2 = Some (getStateRoot ext (stateManager a))"
    by (simp add: applyBlockOps_checkpoint)
  show ?thesis
    using idle cp root by (simp add: startBlock_def revertBlock_def)
qed

theorem revert_restores_checkpoint_witness:
  "blockStartStateRoot toy_adapter = None
   \<and> getStateRoot toy_externals (stateManager toy_adapter) = []
   \<and> getStateRoot toy_externals (stateManager
        (applyBlockOps toy_externals
           [RunTxInBlock (toy_tx 3 [1]) (toy_block 11 None []), AddBlockRewards [(1, 2)]]
           (snd (startBlock toy_externals toy_adapter)))) = [1, 1]
   \<and> getStateRoot toy_externals (stateManager (snd (revertBlock toy_externals
        (applyBlockOps toy_externals
           [RunTxInBlock (toy_tx 3 [1]) (toy_block 11 None []), AddBlockRewards [(1, 2)]]
           (snd (startBlock toy_externals toy_adapter)))))) = []
   \<and> blockStartStateRoot (snd (revertBlock toy_externals
        (applyBlockOps toy_externals
           [RunTxInBlock (toy_tx 3 [1]) (toy_block 11 None []), AddBlockRewards [(1, 2)]]
           (snd (startBlock toy_externals toy_adapter))))) = None"
proof -
  have root: "\<forall>r w. getStateRoot toy_externals (setStateRoot toy_externals r w) = r"
    by (simp add: toy_externals_def)
  have idle: "blockStartStateRoot toy_adapter = None"
    by (simp add: toy_adapter_def)
  have r0: "getStateRoot toy_externals (stateManager toy_adapter) = []"
    by (simp add: toy_defs)
  have moved: "getStateRoot toy_externals (stateManager
        (applyBlockOps toy_externals
           [RunTxInBlock (toy_tx 3 [1]) (toy_block 11 None []), AddBlockRewards [(1, 2)]]
           (snd (startBlock toy_externals toy_adapter)))) = [1, 1]"
    by (simp add: startBlock_def runTxInBlock_def addBlockRewards_def addReward_def toy_defs Let_def)
  show ?thesis
    using revert_restores_checkpoint [OF root idle,
        of "[RunTxInBlock (toy_tx 3 [1]) (toy_block 11 None []), AddBlockRewards [(1, 2)]]"]
      idle r0 moved
    by simp
qed

subsection \<open>Dry run\<close>

text \<open>
  What the body of the \<^verbatim>\<open>try\<close> does, by the outcome of the ruleset selector and of
  the block library: when the selector throws, or when the base fee is to be overridden
  and the library refuses the block under the adapter's ruleset, nothing has been
  touched; otherwise the engine runs under the ruleset built for the call, on the
  block chosen for the call.
\<close>

lemma dryRun_try_selector_throws:
  assumes "selectHardfork a (number (header b)) = Inl e"
  shows "dryRun_try ext a tx b force = (Inl e, a, None)"
  using assms by (simp add: dryRun_try_def isEip1559Active_def)

lemma dryRun_try_rejected:
  assumes "selectHardfork a (number (header b)) = Inr hf"
    and "hardforkGteHardfork ext (common a) hf ''london''"
    and "baseFeePerGas (header b) = None \<or> force"
    and "blockDataError ext b (common a) = Some e"
  shows "dryRun_try ext a tx b force = (Inl e, a, None)"
  using assms
  by (simp add: dryRun_try_def isEip1559Active_def Block_fromBlockData_def)

lemma dryRun_try_selected:
  assumes "selectHardfork a (number (header b)) = Inr hf"
    and "(if hardforkGteHardfork ext (common a) hf ''london''
             \<and> (baseFeePerGas (header b) = None \<or> force)
          then blockDataError ext b (common a) else None) = None"
  shows "dryRun_try ext a tx b force =
     (if hardforkSupported ext hf
      then (case runTx ext
                   \<lparr>chainId = (if (case forkBlockNumber a of
                                      None \<Rightarrow> True
                                    | Some n \<Rightarrow> number (header b) \<ge> n)
                                then Some (configChainId a) else forkNetworkId a),
                    networkId = (case forkNetworkId a of
                                   Some nid \<Rightarrow> nid
                                 | None \<Rightarrow> configNetworkId a),
                    hardfork = hf\<rparr>
                   \<lparr>skipNonce = True, skipBalance = True, skipBlockGasLimitValidation = True\<rparr>
                   (if hardforkGteHardfork ext (common a) hf ''london''
                       \<and> (baseFeePerGas (header b) = None \<or> force)
                    then b\<lparr>block_common := common a,
                           header := (header b)\<lparr>baseFeePerGas := Some 0\<rparr>\<rparr>
                    else b)
                   (Plain tx) (stateManager a) of
              (r, w) \<Rightarrow>
                (r,
                 a\<lparr>vm_common :=
                      \<lparr>chainId = (if (case forkBlockNumber a of
                                         None \<Rightarrow> True
                                       | Some n \<Rightarrow> number (header b) \<ge> n)
                                   then Some (configChainId a) else forkNetworkId a),
                       networkId = (case forkNetworkId a of
                                      Some nid \<Rightarrow> nid
                                    | None \<Rightarrow> configNetworkId a),
                       hardfork = hf\<rparr>,
                   stateManager := w\<rparr>,
                 Some (vm_common a)))
      else (Inl (Error (''Hardfork with name '' @ hf @ '' not supported'')), a,
            Some (vm_common a)))"
  using assms
  by (cases "hardforkGteHardfork ext (common a) hf ''london''";
      cases "baseFeePerGas (header b)"; cases force;
      simp add: dryRun_try_def isEip1559Active_def Block_fromBlockData_def Let_def
        Common_custom_def case_prod_beta split: option.split)

lemma dryRun_frame:
  "\<exists>w. snd (dryRun ext a tx b force)
        = a\<lparr>stateManager := setStateRoot ext (getStateRoot ext (stateManager a)) w\<rparr>"
proof (cases "selectHardfork a (number (header b))")
  case (Inl e)
  have "snd (dryRun ext a tx b force)
      = a\<lparr>stateManager := setStateRoot ext (getStateRoot ext (stateManager a)) (stateManager a)\<rparr>"
    by (simp add: dryRun_def dryRun_try_selector_throws [OF Inl])
  then show ?thesis by (rule exI)
next
  case (Inr hf)
  show ?thesis
  proof (cases "if hardforkGteHardfork ext (common a) hf ''london''
                   \<and> (baseFeePerGas (header b) = None \<or> force)
                then blockDataError ext b (common a) else None")
    case (Some e)
    then have "hardforkGteHardfork ext (common a) hf ''london''"
      and "baseFeePerGas (header b) = None \<or> force"
      and "blockDataError ext b (common a) = Some e"
      by (simp_all split: if_splits)
    then have "snd (dryRun ext a tx b force)
        = a\<lparr>stateManager := setStateRoot ext (getStateRoot ext (stateManager a)) (stateManager a)\<rparr>"
      by (simp add: dryRun_def dryRun_try_rejected [OF Inr])
    then show ?thesis by (rule exI)
  next
    case None
    show ?thesis
    proof (cases "hardforkSupported ext hf")
      case True
      let ?w = "snd (runTx ext
                   \<lparr>chainId = (if (case forkBlockNumber a of
                                      None \<Rightarrow> True
                                    | Some n \<Rightarrow> number (header b) \<ge> n)
                                then Some (configChainId a) else forkNetworkId a),
                    networkId = (case forkNetworkId a of
                                   Some nid \<Rightarrow> nid
                                 | None \<Rightarrow> configNetworkId a),
                    hardfork = hf\<rparr>
                   \<lparr>skipNonce = True, skipBalance = True, skipBlockGasLimitValidation = True\<rparr>
                   (if hardforkGteHardfork ext (common a) hf ''london''
                       \<and> (baseFeePerGas (header b) = None \<or> force)
                    then b\<lparr>block_common := common a,
                           header := (header b)\<lparr>baseFeePerGas := Some 0\<rparr>\<rparr>
                    else b)
                   (Plain tx) (stateManager a))"
      have "snd (dryRun ext a tx b force)
          = a\<lparr>stateManager := setStateRoot ext (getStateRoot ext (stateManager a)) ?w\<rparr>"
        using True by (simp add: dryRun_def dryRun_try_selected [OF Inr None] case_prod_beta)
      then show ?thesis by (rule exI)
    next
      case False
      have "snd (dryRun ext a tx b force)
          = a\<lparr>stateManager := setStateRoot ext (getStateRoot ext (stateManager a)) (stateManager a)\<rparr>"
        using False by (simp add: dryRun_def dryRun_try_selected [OF Inr None])
      then show ?thesis by (rule exI)
    qed
  qed
qed

text \<open>
  C1. Whatever the engine does (returns a result, returns a reverted result, throws)
  and whether or not the ruleset selector, the block library or the ruleset library
  throws, after \<^verbatim>\<open>dryRun\<close> the state root and the ruleset installed in the VM are
  those of before the call, and no other field of the adapter has changed. The
  hypothesis on the backend: after \<^verbatim>\<open>setStateRoot(r)\<close>, \<^verbatim>\<open>getStateRoot()\<close> is \<open>r\<close>.
\<close>

theorem dryRun_isolation:
  assumes root: "\<forall>r w. getStateRoot ext (setStateRoot ext r w) = r"
  shows "getStateRoot ext (stateManager (snd (dryRun ext a tx blockContext forceBaseFeeZero)))
           = getStateRoot ext (stateManager a)
    \<and> vm_common (snd (dryRun ext a tx blockContext forceBaseFeeZero)) = vm_common a
    \<and> (\<exists>w. snd (dryRun ext a tx blockContext forceBaseFeeZero) = a\<lparr>stateManager := w\<rparr>)"
proof -
  obtain w where w: "snd (dryRun ext a tx blockContext forceBaseFeeZero)
        = a\<lparr>stateManager := setStateRoot ext (getStateRoot ext (stateManager a)) w\<rparr>"
    using dryRun_frame [of ext a tx blockContext forceBaseFeeZero] by (elim exE)
  have "getStateRoot ext (stateManager (snd (dryRun ext a tx blockContext forceBaseFeeZero)))
           = getStateRoot ext (stateManager a)"
    using root by (simp add: w)
  moreover have "vm_common (snd (dryRun ext a tx blockContext forceBaseFeeZero)) = vm_common a"
    by (simp add: w)
  moreover have "\<exists>w. snd (dryRun ext a tx blockContext forceBaseFeeZero) = a\<lparr>stateManager := w\<rparr>"
    using w by (rule exI)
  ultimately show ?thesis by (intro conjI)
qed

theorem dryRun_isolation_witness:
  "(\<forall>r w. getStateRoot toy_externals (setStateRoot toy_externals r w) = r)
   \<and> fst (dryRun toy_externals toy_adapter (toy_tx 1 []) (toy_block 200 None []) True)
       = Inl (Error ''invalid transaction'')
   \<and> getStateRoot toy_externals
        (stateManager (snd (dryRun toy_externals toy_adapter (toy_tx 1 []) (toy_block 200 None []) True)))
       = getStateRoot toy_externals (stateManager toy_adapter)
   \<and> vm_common (snd (dryRun toy_externals toy_adapter (toy_tx 1 []) (toy_block 200 None []) True))
       = vm_common toy_adapter
   \<and> fst (dryRun toy_externals toy_adapter (toy_tx 1 [0]) (toy_block 9 None []) False)
       = Inr \<lparr>totalGasSpent = 21000, returnValue = [0, 1], exceptionError = Some ''revert''\<rparr>
   \<and> getStateRoot toy_externals
        (stateManager (snd (dryRun toy_externals toy_adapter (toy_tx 1 [0]) (toy_block 9 None []) False)))
       = getStateRoot toy_externals (stateManager toy_adapter)
   \<and> vm_common (snd (dryRun toy_externals toy_adapter (toy_tx 1 [0]) (toy_block 9 None []) False))
       = vm_common toy_adapter
   \<and> fst (dryRun toy_externals toy_adapter (toy_tx 1 [5])
            (toy_block 200 None [(toy_tx 2 [6])\<lparr>tx_type := 3\<rparr>]) True)
       = Inl (Error ''Tx instantiation with given type not supported'')
   \<and> getStateRoot toy_externals
        (stateManager (snd (dryRun toy_externals toy_adapter (toy_tx 1 [5])
            (toy_block 200 None [(toy_tx 2 [6])\<lparr>tx_type := 3\<rparr>]) True)))
       = getStateRoot toy_externals (stateManager toy_adapter)
   \<and> vm_common (snd (dryRun toy_externals toy_adapter (toy_tx 1 [5])
            (toy_block 200 None [(toy_tx 2 [6])\<lparr>tx_type := 3\<rparr>]) True))
       = vm_common toy_adapter"
proof -
  let ?bad = "toy_block 200 None [(toy_tx 2 [6])\<lparr>tx_type := 3\<rparr>]"
  have root: "\<forall>r w. getStateRoot toy_externals (setStateRoot toy_externals r w) = r"
    by (simp add: toy_externals_def)
  have sel200: "selectHardfork toy_adapter (number (header (toy_block 200 None []))) = Inr ''london''"
    by (simp add: toy_defs)
  have ok200: "(if hardforkGteHardfork toy_externals (common toy_adapter) ''london'' ''london''
                   \<and> (baseFeePerGas (header (toy_block 200 None [])) = None \<or> True)
                then blockDataError toy_externals (toy_block 200 None []) (common toy_adapter)
                else None) = None"
    by (simp add: toy_defs)
  have sel9: "selectHardfork toy_adapter (number (header (toy_block 9 None []))) = Inr ''berlin''"
    by (simp add: toy_defs)
  have ok9: "(if hardforkGteHardfork toy_externals (common toy_adapter) ''berlin'' ''london''
                 \<and> (baseFeePerGas (header (toy_block 9 None [])) = None \<or> False)
              then blockDataError toy_externals (toy_block 9 None []) (common toy_adapter)
              else None) = None"
    by (simp add: toy_defs)
  have selbad: "selectHardfork toy_adapter (number (header ?bad)) = Inr ''london''"
    by (simp add: toy_defs)
  have gte: "hardforkGteHardfork toy_externals (common toy_adapter) ''london'' ''london''"
    by (simp add: toy_defs)
  have nofee: "baseFeePerGas (header ?bad) = None \<or> True"
    by simp
  have refused: "blockDataError toy_externals ?bad (common toy_adapter)
      = Some (Error ''Tx instantiation with given type not supported'')"
    by (simp add: toy_defs)
  have throws: "fst (dryRun toy_externals toy_adapter (toy_tx 1 []) (toy_block 200 None []) True)
       = Inl (Error ''invalid transaction'')"
    by (simp add: dryRun_def dryRun_try_selected [OF sel200 ok200] case_prod_beta)
       (simp add: toy_defs Let_def)
  have reverts: "fst (dryRun toy_externals toy_adapter (toy_tx 1 [0]) (toy_block 9 None []) False)
       = Inr \<lparr>totalGasSpent = 21000, returnValue = [0, 1], exceptionError = Some ''revert''\<rparr>"
    by (simp add: dryRun_def dryRun_try_selected [OF sel9 ok9] case_prod_beta)
       (simp add: toy_defs Let_def)
  have rejected: "fst (dryRun toy_externals toy_adapter (toy_tx 1 [5]) ?bad True)
       = Inl (Error ''Tx instantiation with given type not supported'')"
    by (simp add: dryRun_def dryRun_try_rejected [OF selbad gte nofee refused])
  show ?thesis
    using root throws reverts rejected
      dryRun_isolation [OF root, of toy_adapter "toy_tx 1 []" "toy_block 200 None []" True]
      dryRun_isolation [OF root, of toy_adapter "toy_tx 1 [0]" "toy_block 9 None []" False]
      dryRun_isolation [OF root, of toy_adapter "toy_tx 1 [5]" ?bad True]
    by simp
qed



subsection \<open>The fork boundary\<close>

text \<open>
  The claim C2 says that \<^verbatim>\<open>dryRun\<close> for the fork block itself runs under the remote
  network id as chain id, and that \<^verbatim>\<open>traceTransaction\<close> above the fork block uses the
  configured chain id. On an adapter forked from chain 1 at block 10, with configured
  chain id 31337, a dry run on block 10 runs under chain id 31337, and the engine
  reports it (31337 is \<open>122 * 256 + 105\<close>). And when the VM of that adapter was
  created with a ruleset of chain id 5, tracing a transaction of block 11 runs under
  chain id 5, as the tracer reports.
\<close>

theorem fork_boundary_counterexample:
  "forkBlockNumber toy_adapter = Some 10
   \<and> forkNetworkId toy_adapter = Some 1
   \<and> configChainId toy_adapter = 31337
   \<and> number (header (toy_block 10 None [])) = 10
   \<and> chainId (vm_common (fst (snd (dryRun_try toy_externals toy_adapter (toy_tx 1 [5])
                                      (toy_block 10 None []) False)))) = Some 31337
   \<and> fst (dryRun toy_externals toy_adapter (toy_tx 1 [5]) (toy_block 10 None []) False)
       = Inr \<lparr>totalGasSpent = 21000, returnValue = [122, 105], exceptionError = None\<rparr>
   \<and> forkBlockNumber (toy_adapter\<lparr>vm_common := toy_common\<lparr>chainId := Some 5\<rparr>\<rparr>) = Some 10
   \<and> configChainId (toy_adapter\<lparr>vm_common := toy_common\<lparr>chainId := Some 5\<rparr>\<rparr>) = 31337
   \<and> number (header (toy_block 11 None [toy_tx 0 [1]])) = 11
   \<and> fst (traceTransaction toy_externals (toy_adapter\<lparr>vm_common := toy_common\<lparr>chainId := Some 5\<rparr>\<rparr>)
            [1] (toy_block 11 None [toy_tx 0 [1]]) toy_config)
       = Inr \<lparr>failed = False, gas = 21000, traceReturnValue = [0, 5], structLogs = [''STOP'']\<rparr>"
proof -
  have sel: "selectHardfork toy_adapter (number (header (toy_block 10 None []))) = Inr ''berlin''"
    by (simp add: toy_defs)
  have ok: "(if hardforkGteHardfork toy_externals (common toy_adapter) ''berlin'' ''london''
                 \<and> (baseFeePerGas (header (toy_block 10 None [])) = None \<or> False)
              then blockDataError toy_externals (toy_block 10 None []) (common toy_adapter)
              else None) = None"
    by (simp add: toy_defs)
  have dry: "forkBlockNumber toy_adapter = Some 10
   \<and> forkNetworkId toy_adapter = Some 1
   \<and> configChainId toy_adapter = 31337
   \<and> number (header (toy_block 10 None [])) = 10
   \<and> chainId (vm_common (fst (snd (dryRun_try toy_externals toy_adapter (toy_tx 1 [5])
                                      (toy_block 10 None []) False)))) = Some 31337
   \<and> fst (dryRun toy_externals toy_adapter (toy_tx 1 [5]) (toy_block 10 None []) False)
       = Inr \<lparr>totalGasSpent = 21000, returnValue = [122, 105], exceptionError = None\<rparr>"
    by (simp add: dryRun_def dryRun_try_selected [OF sel ok] case_prod_beta)
       (simp add: toy_defs Let_def)
  have trace: "fst (traceTransaction toy_externals (toy_adapter\<lparr>vm_common := toy_common\<lparr>chainId := Some 5\<rparr>\<rparr>)
            [1] (toy_block 11 None [toy_tx 0 [1]]) toy_config)
       = Inr \<lparr>failed = False, gas = 21000, traceReturnValue = [0, 5], structLogs = [''STOP'']\<rparr>"
    by (simp add: traceTransaction_def toy_trace_defs)
  have fields: "forkBlockNumber (toy_adapter\<lparr>vm_common := toy_common\<lparr>chainId := Some 5\<rparr>\<rparr>) = Some 10"
    "configChainId (toy_adapter\<lparr>vm_common := toy_common\<lparr>chainId := Some 5\<rparr>\<rparr>) = 31337"
    "number (header (toy_block 11 None [toy_tx 0 [1]])) = 11"
    by (simp_all add: toy_adapter_def toy_block_def)
  show ?thesis
    using dry trace fields by simp
qed

text \<open>
  C2, as the code has it. With a fork at block \<open>N\<close> of the network \<open>nid\<close>:
  \<^verbatim>\<open>dryRun\<close>, unless the block library refuses the copy for the base-fee override
  (then no ruleset is installed), installs the remote network id as chain id for block
  numbers below \<open>N\<close> and the configured chain id from \<open>N\<close> on, with the remote network
  id as network id and the hardfork selected for the block number;
  \<^verbatim>\<open>traceTransaction\<close> replays block numbers up to and including \<open>N\<close> on a VM with
  the remote network id as chain and network id and the selected hardfork, and later
  blocks on the adapter's own VM, whose chain id is the configured one when the VM was
  created with it.
\<close>

theorem fork_boundary_selection:
  assumes "forkBlockNumber a = Some N"
    and "forkNetworkId a = Some nid"
    and "selectHardfork a (number (header block)) = Inr hf"
    and "hardforkSupported ext hf"
  shows "vm_common (fst (snd (dryRun_try ext a tx block forceBaseFeeZero)))
           = (case (if hardforkGteHardfork ext (common a) hf ''london''
                       \<and> (baseFeePerGas (header block) = None \<or> forceBaseFeeZero)
                    then blockDataError ext block (common a) else None) of
                Some e \<Rightarrow> vm_common a
              | None \<Rightarrow>
                  \<lparr>chainId = Some (if number (header block) < N then nid else configChainId a),
                   networkId = nid, hardfork = hf\<rparr>)
    \<and> tracingVm ext a (number (header block))
           = Inr (if number (header block) \<le> N
                  then \<lparr>chainId = Some nid, networkId = nid, hardfork = hf\<rparr>
                  else vm_common a)
    \<and> (N < number (header block) \<and> chainId (vm_common a) = Some (configChainId a) \<longrightarrow>
          tracingVm ext a (number (header block))
            = Inr ((vm_common a)\<lparr>chainId := Some (configChainId a)\<rparr>))"
proof -
  have dry: "vm_common (fst (snd (dryRun_try ext a tx block forceBaseFeeZero)))
           = (case (if hardforkGteHardfork ext (common a) hf ''london''
                       \<and> (baseFeePerGas (header block) = None \<or> forceBaseFeeZero)
                    then blockDataError ext block (common a) else None) of
                Some e \<Rightarrow> vm_common a
              | None \<Rightarrow>
                  \<lparr>chainId = Some (if number (header block) < N then nid else configChainId a),
                   networkId = nid, hardfork = hf\<rparr>)"
  proof (cases "if hardforkGteHardfork ext (common a) hf ''london''
                   \<and> (baseFeePerGas (header block) = None \<or> forceBaseFeeZero)
                then blockDataError ext block (common a) else None")
    case (Some e)
    then have "hardforkGteHardfork ext (common a) hf ''london''"
      and "baseFeePerGas (header block) = None \<or> forceBaseFeeZero"
      and "blockDataError ext block (common a) = Some e"
      by (simp_all split: if_splits)
    then have "vm_common (fst (snd (dryRun_try ext a tx block forceBaseFeeZero))) = vm_common a"
      by (simp add: dryRun_try_rejected [OF assms(3)])
    then show ?thesis by (simp only: Some option.case)
  next
    case None
    have "vm_common (fst (snd (dryRun_try ext a tx block forceBaseFeeZero)))
           = \<lparr>chainId = Some (if number (header block) < N then nid else configChainId a),
              networkId = nid, hardfork = hf\<rparr>"
      using assms(1,2,4) by (simp add: dryRun_try_selected [OF assms(3) None] case_prod_beta)
    then show ?thesis by (simp only: None option.case)
  qed
  have trace: "tracingVm ext a (number (header block))
           = Inr (if number (header block) \<le> N
                  then \<lparr>chainId = Some nid, networkId = nid, hardfork = hf\<rparr>
                  else vm_common a)"
    using assms by (simp add: tracingVm_def getCommonForTracing_def Common_custom_def)
  have local: "N < number (header block) \<and> chainId (vm_common a) = Some (configChainId a) \<longrightarrow>
          tracingVm ext a (number (header block))
            = Inr ((vm_common a)\<lparr>chainId := Some (configChainId a)\<rparr>)"
    using assms(1) by (auto simp add: tracingVm_def)
  show ?thesis
    using dry trace local by (intro conjI)
qed

theorem fork_boundary_selection_witness:
  "forkBlockNumber toy_adapter = Some 10
   \<and> forkNetworkId toy_adapter = Some 1
   \<and> selectHardfork toy_adapter (number (header (toy_block 10 None []))) = Inr ''berlin''
   \<and> selectHardfork toy_adapter (number (header (toy_block 9 None []))) = Inr ''berlin''
   \<and> selectHardfork toy_adapter (number (header (toy_block 11 None []))) = Inr ''berlin''
   \<and> hardforkSupported toy_externals ''berlin''
   \<and> vm_common (fst (snd (dryRun_try toy_externals toy_adapter (toy_tx 1 [5]) (toy_block 9 None []) False)))
       = \<lparr>chainId = Some 1, networkId = 1, hardfork = ''berlin''\<rparr>
   \<and> vm_common (fst (snd (dryRun_try toy_externals toy_adapter (toy_tx 1 [5]) (toy_block 10 None []) False)))
       = \<lparr>chainId = Some 31337, networkId = 1, hardfork = ''berlin''\<rparr>
   \<and> tracingVm toy_externals toy_adapter (number (header (toy_block 10 None [])))
       = Inr \<lparr>chainId = Some 1, networkId = 1, hardfork = ''berlin''\<rparr>
   \<and> (10::int) < number (header (toy_block 11 None []))
   \<and> chainId (vm_common toy_adapter) = Some (configChainId toy_adapter)
   \<and> tracingVm toy_externals toy_adapter (number (header (toy_block 11 None [])))
       = Inr \<lparr>chainId = Some 31337, networkId = 31337, hardfork = ''london''\<rparr>"
proof -
  have fork: "forkBlockNumber toy_adapter = Some 10" "forkNetworkId toy_adapter = Some 1"
    by (simp_all add: toy_adapter_def)
  have sel9: "selectHardfork toy_adapter (number (header (toy_block 9 None []))) = Inr ''berlin''"
    by (simp add: toy_defs)
  have sel10: "selectHardfork toy_adapter (number (header (toy_block 10 None []))) = Inr ''berlin''"
    by (simp add: toy_defs)
  have sel11: "selectHardfork toy_adapter (number (header (toy_block 11 None []))) = Inr ''berlin''"
    by (simp add: toy_defs)
  have sup: "hardforkSupported toy_externals ''berlin''"
    by (simp add: toy_defs)
  have gte: "\<not> hardforkGteHardfork toy_externals (common toy_adapter) ''berlin'' ''london''"
    by (simp add: toy_defs)
  have fields: "configChainId toy_adapter = 31337"
    "vm_common toy_adapter = \<lparr>chainId = Some 31337, networkId = 31337, hardfork = ''london''\<rparr>"
    by (simp_all add: toy_adapter_def toy_common_def)
  have numbers: "number (header (toy_block 9 None [])) = 9"
    "number (header (toy_block 10 None [])) = 10" "number (header (toy_block 11 None [])) = 11"
    by (simp_all add: toy_block_def)
  show ?thesis
    using fork sel9 sel10 sel11 sup gte
      fork_boundary_selection [OF fork sel9 sup, of "toy_tx 1 [5]" False]
      fork_boundary_selection [OF fork sel10 sup, of "toy_tx 1 [5]" False]
      fork_boundary_selection [OF fork sel11 sup, of "toy_tx 1 [5]" False]
    by (simp add: fields numbers)
qed

subsection \<open>Replay\<close>

lemma replay_prefix:
  assumes "map (\<lambda>tx. wrapTx tx c) pre = map Inr pre'"
    and "\<forall>etx \<in> set pre'. txHash ext etx \<noteq> hash"
  shows "replay ext c hash block config (pre @ rest) w =
     (case executeInOrder ext c block pre' w of
        (Inl e, w') \<Rightarrow> (Inl e, w')
      | (Inr u, w') \<Rightarrow> replay ext c hash block config rest w')"
  using assms
proof (induction pre arbitrary: pre' w)
  case Nil
  then show ?case by simp
next
  case (Cons tx pre)
  then obtain etx etxs where pre': "pre' = etx # etxs"
    and wrap: "wrapTx tx c = Inr etx"
    and rest: "map (\<lambda>tx. wrapTx tx c) pre = map Inr etxs"
    by (cases pre') auto
  have nomatch: "txHash ext etx \<noteq> hash" "\<forall>etx \<in> set etxs. txHash ext etx \<noteq> hash"
    using Cons.prems(2) pre' by simp_all
  show ?case
  proof (cases "runTxAction ext c block etx w")
    case (Pair r w')
    show ?thesis
    proof (cases r)
      case (Inl e)
      then show ?thesis
        using Pair wrap nomatch(1) by (simp add: pre')
    next
      case (Inr u)
      then show ?thesis
        using Pair wrap nomatch(1) Cons.IH [OF rest nomatch(2), of w'] by (simp add: pre')
    qed
  qed
qed



text \<open>
  C8. When the ruleset of the VM that serves the block's number is older than Spurious
  Dragon, \<^verbatim>\<open>traceTransaction\<close> throws an \<^verbatim>\<open>InvalidInputError\<close> and the adapter, its
  state included, is untouched: no transaction has been executed.
\<close>

theorem tracing_rejects_pre_spurious_dragon:
  assumes "tracingVm ext a (number (header block)) = Inr c"
    and "\<not> gteHardfork ext c ''spuriousDragon''"
  shows "traceTransaction ext a hash block config =
     (Inl (InvalidInputError
        ''Tracing is not supported for transactions using hardforks older than Spurious Dragon. ''),
      a)"
  using assms by (simp add: traceTransaction_def)

theorem tracing_rejects_pre_spurious_dragon_witness:
  "tracingVm toy_externals toy_adapter (number (header (toy_block 3 None [toy_tx 0 [1]])))
     = Inr (toy_forkCommon ''homestead'')
   \<and> \<not> gteHardfork toy_externals (toy_forkCommon ''homestead'') ''spuriousDragon''
   \<and> traceTransaction toy_externals toy_adapter [1] (toy_block 3 None [toy_tx 0 [1]]) toy_config
       = (Inl (InvalidInputError
            ''Tracing is not supported for transactions using hardforks older than Spurious Dragon. ''),
          toy_adapter)"
proof -
  have vm: "tracingVm toy_externals toy_adapter (number (header (toy_block 3 None [toy_tx 0 [1]])))
     = Inr (toy_forkCommon ''homestead'')"
    by (simp add: toy_trace_defs)
  have old: "\<not> gteHardfork toy_externals (toy_forkCommon ''homestead'') ''spuriousDragon''"
    by (simp add: toy_trace_defs)
  show ?thesis
    using vm old tracing_rejects_pre_spurious_dragon [OF vm old, of "[1]" toy_config]
    by (intro conjI)
qed

text \<open>
  The claim C9 says that the failure of a replay that finds no matching transaction is
  classified as a programming error. The code throws it as a
  \<^verbatim>\<open>TransactionExecutionError\<close>, the class of failed transaction executions, not as
  the \<^verbatim>\<open>InternalError\<close> of the unsupported-type branch: here on a block whose only
  transaction has another hash.
\<close>

theorem replay_not_found_counterexample:
  "fst (traceTransaction toy_externals toy_adapter [3] (toy_block 10 None [toy_tx 0 [1]])
          toy_config)
     = Inl (TransactionExecutionError
         ''Unable to find a transaction in a block that contains that transaction, this should never happen'')
   \<and> \<not> isInternalError (TransactionExecutionError
         ''Unable to find a transaction in a block that contains that transaction, this should never happen'')"
  by (simp add: traceTransaction_def toy_trace_defs)

text \<open>
  C9, as the code has it. After the transactions before it have been replayed without
  a match and without an error, a transaction whose type is not 0, 1 or 2 makes
  \<^verbatim>\<open>traceTransaction\<close> throw an \<^verbatim>\<open>InternalError\<close>; and when the whole block has
  been replayed so, it throws a \<^verbatim>\<open>TransactionExecutionError\<close>, which is not of the
  internal-error class, with the message that the transaction was not found in the
  block and that this should never happen.
\<close>

theorem replay_errors:
  assumes vm: "tracingVm ext a (number (header block)) = Inr c"
    and gte: "gteHardfork ext c ''spuriousDragon''"
    and pre: "map (\<lambda>tx. wrapTx tx c) pre = map Inr pre'"
    and nomatch: "\<forall>etx \<in> set pre'. txHash ext etx \<noteq> hash"
    and run: "executeInOrder ext c block pre' (stateManager a) = (Inr (), w)"
  shows "(transactions block = pre @ t # post \<and> tx_type t \<notin> {0, 1, 2} \<longrightarrow>
            traceTransaction ext a hash block config =
              (Inl (InternalError ''Only legacy, EIP2930, and EIP1559 txs are supported''),
               a\<lparr>stateManager := w\<rparr>))
    \<and> isInternalError (InternalError ''Only legacy, EIP2930, and EIP1559 txs are supported'')
    \<and> (transactions block = pre \<longrightarrow>
            traceTransaction ext a hash block config =
              (Inl (TransactionExecutionError
                 ''Unable to find a transaction in a block that contains that transaction, this should never happen''),
               a\<lparr>stateManager := w\<rparr>))
    \<and> \<not> isInternalError (TransactionExecutionError
         ''Unable to find a transaction in a block that contains that transaction, this should never happen'')"
proof (intro conjI impI)
  assume "transactions block = pre @ t # post \<and> tx_type t \<notin> {0, 1, 2}"
  then have txs: "transactions block = pre @ t # post"
    and wrap: "wrapTx t c = Inl (InternalError ''Only legacy, EIP2930, and EIP1559 txs are supported'')"
    by (simp_all add: wrapTx_def)
  have "replay ext c hash block config (transactions block) (stateManager a) =
      (Inl (InternalError ''Only legacy, EIP2930, and EIP1559 txs are supported''), w)"
    using wrap by (simp add: txs replay_prefix [OF pre nomatch] run)
  then show "traceTransaction ext a hash block config =
      (Inl (InternalError ''Only legacy, EIP2930, and EIP1559 txs are supported''),
       a\<lparr>stateManager := w\<rparr>)"
    using vm gte by (simp add: traceTransaction_def)
next
  show "isInternalError (InternalError ''Only legacy, EIP2930, and EIP1559 txs are supported'')"
    by simp
next
  assume txs: "transactions block = pre"
  have "replay ext c hash block config (pre @ []) (stateManager a) =
      (Inl (TransactionExecutionError
         ''Unable to find a transaction in a block that contains that transaction, this should never happen''),
       w)"
    by (simp only: replay_prefix [OF pre nomatch] run) simp
  then show "traceTransaction ext a hash block config =
      (Inl (TransactionExecutionError
         ''Unable to find a transaction in a block that contains that transaction, this should never happen''),
       a\<lparr>stateManager := w\<rparr>)"
    using vm gte by (simp add: traceTransaction_def txs)
next
  show "\<not> isInternalError (TransactionExecutionError
         ''Unable to find a transaction in a block that contains that transaction, this should never happen'')"
    by simp
qed

theorem replay_errors_witness:
  "fst (executeInOrder toy_externals (toy_forkCommon ''berlin'')
          (toy_block 10 None [toy_tx 0 [1], (toy_tx 1 [2])\<lparr>tx_type := 3\<rparr>, toy_tx 2 [3]])
          [FakeSenderTransaction 0 (toy_tx 0 [1]) (toy_forkCommon ''berlin'')] toy_world) = Inr ()
   \<and> fst (traceTransaction toy_externals toy_adapter [3]
            (toy_block 10 None [toy_tx 0 [1], (toy_tx 1 [2])\<lparr>tx_type := 3\<rparr>, toy_tx 2 [3]])
            toy_config)
       = Inl (InternalError ''Only legacy, EIP2930, and EIP1559 txs are supported'')
   \<and> fst (executeInOrder toy_externals (toy_forkCommon ''berlin'')
          (toy_block 10 None [toy_tx 0 [1]])
          [FakeSenderTransaction 0 (toy_tx 0 [1]) (toy_forkCommon ''berlin'')] toy_world) = Inr ()
   \<and> fst (traceTransaction toy_externals toy_adapter [3] (toy_block 10 None [toy_tx 0 [1]])
            toy_config)
       = Inl (TransactionExecutionError
           ''Unable to find a transaction in a block that contains that transaction, this should never happen'')
   \<and> \<not> isInternalError (TransactionExecutionError
           ''Unable to find a transaction in a block that contains that transaction, this should never happen'')"
proof -
  let ?c = "toy_forkCommon ''berlin''"
  let ?bad = "(toy_tx 1 [2])\<lparr>tx_type := 3\<rparr>"
  let ?block1 = "toy_block 10 None [toy_tx 0 [1], ?bad, toy_tx 2 [3]]"
  let ?block2 = "toy_block 10 None [toy_tx 0 [1]]"
  let ?pre' = "[FakeSenderTransaction 0 (toy_tx 0 [1]) ?c]"
  have vm1: "tracingVm toy_externals toy_adapter (number (header ?block1)) = Inr ?c"
    and vm2: "tracingVm toy_externals toy_adapter (number (header ?block2)) = Inr ?c"
    by (simp_all add: toy_trace_defs)
  have gte: "gteHardfork toy_externals ?c ''spuriousDragon''"
    by (simp add: toy_trace_defs)
  have pre: "map (\<lambda>tx. wrapTx tx ?c) [toy_tx 0 [1]] = map Inr ?pre'"
    by (simp add: toy_trace_defs)
  have nomatch: "\<forall>etx \<in> set ?pre'. txHash toy_externals etx \<noteq> [3]"
    by (simp add: toy_trace_defs)
  have ok1: "fst (executeInOrder toy_externals ?c ?block1 ?pre' toy_world) = Inr ()"
    and ok2: "fst (executeInOrder toy_externals ?c ?block2 ?pre' toy_world) = Inr ()"
    by (simp_all add: toy_trace_defs)
  have run1: "executeInOrder toy_externals ?c ?block1 ?pre' (stateManager toy_adapter)
      = (Inr (), snd (executeInOrder toy_externals ?c ?block1 ?pre' toy_world))"
    using ok1 by (simp add: toy_adapter_def prod_eq_iff)
  have run2: "executeInOrder toy_externals ?c ?block2 ?pre' (stateManager toy_adapter)
      = (Inr (), snd (executeInOrder toy_externals ?c ?block2 ?pre' toy_world))"
    using ok2 by (simp add: toy_adapter_def prod_eq_iff)
  have txs1: "transactions ?block1 = [toy_tx 0 [1]] @ ?bad # [toy_tx 2 [3]] \<and> tx_type ?bad \<notin> {0, 1, 2}"
    by (simp add: toy_block_def toy_tx_def)
  have txs2: "transactions ?block2 = [toy_tx 0 [1]]"
    by (simp add: toy_block_def)
  show ?thesis
    using ok1 ok2 txs1 txs2
      replay_errors [OF vm1 gte pre nomatch run1, of ?bad "[toy_tx 2 [3]]" toy_config]
      replay_errors [OF vm2 gte pre nomatch run2, of ?bad "[]" toy_config]
    by simp
qed

subsection \<open>Tracing hooks\<close>

lemma listeners_enableTracing:
  assumes "evm_events a = Some em"
  shows "listeners (snd (enableTracing a callbacks)) ev =
     (if ev \<in> set tracingEvents then listeners a ev @ [hook callbacks ev] else listeners a ev)"
  using assms
  by (simp add: enableTracing_def listeners_def events_on_def tracingEvents_def hook_def Let_def)

lemma listeners_disableTracing:
  assumes "evm_events a = Some em"
  shows "listeners (snd (disableTracing a)) ev =
     (case tracingCallbacks a of
        None \<Rightarrow> listeners a ev
      | Some callbacks \<Rightarrow>
          if ev \<in> set tracingEvents
          then rev (remove1 (hook callbacks ev) (rev (listeners a ev)))
          else listeners a ev)"
  using assms
  by (cases "tracingCallbacks a")
     (simp_all add: disableTracing_def listeners_def events_removeListener_def tracingEvents_def
        hook_def Let_def)

lemma enableTracing_fields:
  assumes "evm_events a = Some em"
  shows "fst (enableTracing a callbacks) = Inr ()"
    and "tracingCallbacks (snd (enableTracing a callbacks)) = Some callbacks"
    and "evm_events (snd (enableTracing a callbacks)) \<noteq> None"
  using assms by (simp_all add: enableTracing_def Let_def)

lemma disableTracing_fields:
  assumes "evm_events a = Some em"
  shows "fst (disableTracing a) = Inr ()"
    and "tracingCallbacks (snd (disableTracing a)) = None"
    and "evm_events (snd (disableTracing a)) \<noteq> None"
  using assms by (cases "tracingCallbacks a"; simp add: disableTracing_def Let_def)+

lemma count_attached:
  assumes "n < count (mset xs) h"
  shows "h \<in> set xs"
proof -
  have "0 < count (mset xs) h"
    using assms by linarith
  then show ?thesis by simp
qed

lemma leaked_attached:
  assumes "leaked a h ev"
  shows "h \<in> set (listeners a ev)"
proof -
  obtain n where "n < count (mset (listeners a ev)) h"
    using assms unfolding leaked_def by blast
  then show ?thesis by (rule count_attached)
qed

lemma leaked_applyTracingOp:
  assumes "leaked a h ev" and "ev \<in> set tracingEvents"
  shows "leaked (applyTracingOp op a) h ev"
proof -
  obtain em where em: "evm_events a = Some em"
    using assms(1) by (auto simp add: leaked_def)
  define k where "k = count (mset (listeners a ev)) h"
  have k: "k > (case tracingCallbacks a of
                  None \<Rightarrow> 0
                | Some callbacks \<Rightarrow> if hook callbacks ev = h then 1 else 0)"
    using assms(1) unfolding leaked_def k_def by (rule conjunct2)
  show ?thesis
  proof (cases op)
    case (EnableTracing callbacks)
    have "count (mset (listeners (snd (enableTracing a callbacks)) ev)) h
            = k + (if hook callbacks ev = h then 1 else 0)"
      using assms(2) by (simp add: listeners_enableTracing [OF em] k_def)
    moreover have "0 < k"
      using k by linarith
    ultimately have "count (mset (listeners (snd (enableTracing a callbacks)) ev)) h
            > (if hook callbacks ev = h then 1 else 0)"
      by (simp del: count_greater_zero_iff)
    then show ?thesis
      unfolding leaked_def EnableTracing
      using enableTracing_fields(2,3) [OF em, of callbacks]
      by (simp del: count_greater_zero_iff)
  next
    case DisableTracing
    have "count (mset (listeners (snd (disableTracing a)) ev)) h
            = k - (case tracingCallbacks a of
                     None \<Rightarrow> 0
                   | Some callbacks \<Rightarrow> if hook callbacks ev = h then 1 else 0)"
      using assms(2)
      by (cases "tracingCallbacks a") (simp_all add: listeners_disableTracing [OF em] k_def)
    then have "count (mset (listeners (snd (disableTracing a)) ev)) h > 0"
      using k by linarith
    then show ?thesis
      unfolding leaked_def DisableTracing
      using disableTracing_fields(2,3) [OF em]
      by (simp del: count_greater_zero_iff)
  qed
qed

lemma leaked_applyTracingOps:
  assumes "leaked a h ev" and "ev \<in> set tracingEvents"
  shows "leaked (applyTracingOps ops a) h ev"
  using assms by (induction ops arbitrary: a) (simp_all add: leaked_applyTracingOp)

text \<open>
  C10. With an event emitter present, a second \<^verbatim>\<open>enableTracing\<close> does not throw: it
  stores the new callbacks and adds their hooks after those of the first call.
  \<^verbatim>\<open>disableTracing\<close> then removes the three hooks of the second call only and
  clears the stored callbacks, and after any further sequence of \<^verbatim>\<open>enableTracing\<close>
  and \<^verbatim>\<open>disableTracing\<close> calls the hooks of the first call are still attached.
\<close>

theorem enableTracing_twice_leaks:
  assumes "evm_events a = Some em"
  shows "fst (enableTracing (snd (enableTracing a first)) second) = Inr ()
    \<and> tracingCallbacks (snd (enableTracing (snd (enableTracing a first)) second)) = Some second
    \<and> (\<forall>ev \<in> set tracingEvents.
          listeners (snd (enableTracing (snd (enableTracing a first)) second)) ev
            = listeners a ev @ [hook first ev, hook second ev])
    \<and> fst (disableTracing (snd (enableTracing (snd (enableTracing a first)) second))) = Inr ()
    \<and> tracingCallbacks
          (snd (disableTracing (snd (enableTracing (snd (enableTracing a first)) second)))) = None
    \<and> (\<forall>ev \<in> set tracingEvents.
          listeners (snd (disableTracing (snd (enableTracing (snd (enableTracing a first)) second)))) ev
            = listeners a ev @ [hook first ev])
    \<and> (\<forall>ops. \<forall>ev \<in> set tracingEvents.
          hook first ev \<in> set (listeners
            (applyTracingOps ops
               (snd (disableTracing (snd (enableTracing (snd (enableTracing a first)) second)))))
            ev))"
proof -
  let ?a1 = "snd (enableTracing a first)"
  let ?a2 = "snd (enableTracing ?a1 second)"
  let ?a3 = "snd (disableTracing ?a2)"
  obtain em1 where em1: "evm_events ?a1 = Some em1"
    using enableTracing_fields(3) [OF assms, of first] by auto
  obtain em2 where em2: "evm_events ?a2 = Some em2"
    using enableTracing_fields(3) [OF em1, of second] by auto
  have l2: "\<forall>ev \<in> set tracingEvents. listeners ?a2 ev = listeners a ev @ [hook first ev, hook second ev]"
    by (simp add: listeners_enableTracing [OF em1] listeners_enableTracing [OF assms])
  have t2: "tracingCallbacks ?a2 = Some second"
    by (rule enableTracing_fields(2) [OF em1])
  have l3: "\<forall>ev \<in> set tracingEvents. listeners ?a3 ev = listeners a ev @ [hook first ev]"
    using l2 by (simp add: listeners_disableTracing [OF em2] t2)
  have t3: "tracingCallbacks ?a3 = None"
    by (rule disableTracing_fields(2) [OF em2])
  have "\<forall>ev \<in> set tracingEvents. leaked ?a3 (hook first ev) ev"
    using l3 disableTracing_fields(3) [OF em2] by (simp add: leaked_def t3)
  then have perm: "\<forall>ops. \<forall>ev \<in> set tracingEvents.
      hook first ev \<in> set (listeners (applyTracingOps ops ?a3) ev)"
    by (blast intro: leaked_attached leaked_applyTracingOps)
  show ?thesis
    using enableTracing_fields(1) [OF em1, of second] t2 l2
      disableTracing_fields(1) [OF em2] t3 l3 perm
    by (intro conjI)
qed

theorem enableTracing_twice_leaks_witness:
  "evm_events toy_adapter = Some (\<lambda>ev. [])
   \<and> fst (enableTracing (snd (enableTracing toy_adapter
            \<lparr>beforeMessage = 1, step = 2, afterMessage = 3\<rparr>))
            \<lparr>beforeMessage = 4, step = 5, afterMessage = 6\<rparr>) = Inr ()
   \<and> listeners (snd (enableTracing (snd (enableTracing toy_adapter
            \<lparr>beforeMessage = 1, step = 2, afterMessage = 3\<rparr>))
            \<lparr>beforeMessage = 4, step = 5, afterMessage = 6\<rparr>)) ''step'' = [2, 5]
   \<and> listeners (snd (disableTracing (snd (enableTracing (snd (enableTracing toy_adapter
            \<lparr>beforeMessage = 1, step = 2, afterMessage = 3\<rparr>))
            \<lparr>beforeMessage = 4, step = 5, afterMessage = 6\<rparr>)))) ''step'' = [2]
   \<and> 2 \<in> set (listeners
        (applyTracingOps [DisableTracing, EnableTracing \<lparr>beforeMessage = 1, step = 2, afterMessage = 3\<rparr>, DisableTracing]
           (snd (disableTracing (snd (enableTracing (snd (enableTracing toy_adapter
              \<lparr>beforeMessage = 1, step = 2, afterMessage = 3\<rparr>))
              \<lparr>beforeMessage = 4, step = 5, afterMessage = 6\<rparr>)))))
        ''step'')"
proof -
  have events: "evm_events toy_adapter = Some (\<lambda>ev. [])"
    by (simp add: toy_adapter_def)
  have none: "listeners toy_adapter ''step'' = []"
    by (simp add: listeners_def toy_adapter_def)
  have ev: "''step'' \<in> set tracingEvents"
    by (simp add: tracingEvents_def)
  have hooks: "hook \<lparr>beforeMessage = 1, step = 2, afterMessage = 3\<rparr> ''step'' = 2"
    "hook \<lparr>beforeMessage = 4, step = 5, afterMessage = 6\<rparr> ''step'' = 5"
    by (simp_all add: hook_def)
  let ?first = "\<lparr>beforeMessage = 1, step = 2, afterMessage = 3\<rparr>"
  let ?second = "\<lparr>beforeMessage = 4, step = 5, afterMessage = 6\<rparr>"
  let ?a2 = "snd (enableTracing (snd (enableTracing toy_adapter ?first)) ?second)"
  let ?a3 = "snd (disableTracing ?a2)"
  note leak = enableTracing_twice_leaks [OF events, of ?first ?second]
  have ok: "fst (enableTracing (snd (enableTracing toy_adapter ?first)) ?second) = Inr ()"
    using leak by (rule conjunct1)
  have "listeners ?a2 ''step'' = listeners toy_adapter ''step'' @ [hook ?first ''step'', hook ?second ''step'']"
    using leak ev by blast
  then have l2: "listeners ?a2 ''step'' = [2, 5]"
    by (simp only: none hooks append_Nil)
  have "listeners ?a3 ''step'' = listeners toy_adapter ''step'' @ [hook ?first ''step'']"
    using leak ev by blast
  then have l3: "listeners ?a3 ''step'' = [2]"
    by (simp only: none hooks append_Nil)
  have "hook ?first ''step'' \<in> set (listeners
      (applyTracingOps [DisableTracing, EnableTracing ?first, DisableTracing] ?a3) ''step'')"
    using leak ev by blast
  then have perm: "2 \<in> set (listeners
      (applyTracingOps [DisableTracing, EnableTracing ?first, DisableTracing] ?a3) ''step'')"
    by (simp only: hooks)
  show ?thesis
    using events ok l2 l3 perm by (intro conjI)
qed

end
